theory Spec2Isabelle
  imports Complex_Main "HOL-Library.Multiset"
begin

section \<open>Ring median filter (hugs/imtools/rmedian.py)\<close>

text \<open>
  The two functions of \<^verbatim>\<open>rmedian.py\<close> are embedded as pure functions. Radii and pixel
  values are real numbers: the distance grid \<^verbatim>\<open>np.sqrt(x**2 + x[:,None]**2)\<close> is the
  exact Euclidean distance of the integer offsets, and the two comparisons of line 32 are
  comparisons of reals; the rounding of floating-point numbers and the overflow of
  \<^verbatim>\<open>x**2\<close> on 64-bit integers are not modelled. An exception is a value \<open>Inl e\<close> of
  the result type: \<open>AssertionError\<close> is the failed \<^verbatim>\<open>assert\<close> of line 29 (the
  specification's \<^verbatim>\<open>InvalidRadiusError\<close>), \<open>RuntimeError\<close> the exception that
  \<^verbatim>\<open>median_filter\<close> raises on a footprint it cannot use (the specification's
  \<^verbatim>\<open>ShapeError\<close> when the dimensions differ).
\<close>

datatype error = AssertionError | RuntimeError

subsection \<open>The footprint: \<^verbatim>\<open>_ring\<close>\<close>

text \<open>Python's \<^verbatim>\<open>int(r)\<close> on a number: truncation toward zero.\<close>

definition py_int :: "real \<Rightarrow> int" where
  "py_int r = (if 0 \<le> r then \<lfloor>r\<rfloor> else \<lceil>r\<rceil>)"

text \<open>\<^verbatim>\<open>np.arange(a, b)\<close> on integers: \<open>a, a + 1, ..., b - 1\<close>, empty when \<open>b \<le> a\<close>.\<close>

definition arange :: "int \<Rightarrow> int \<Rightarrow> int list" where
  "arange a b = [a..b - 1]"

text \<open>
  \<^verbatim>\<open>_ring(r_inner, r_outer, dtype=np.int, invert=False)\<close>, with the default integer
  \<^verbatim>\<open>dtype\<close>. Row \<open>i\<close>, column \<open>j\<close> of the grid \<open>r\<close> is \<open>sqrt (x[j]^2 + x[i]^2)\<close>
  (line 31, broadcasting \<^verbatim>\<open>x[:,None]\<close> down the rows); lines 35 to 37 write 1 where the
  mask holds and 0 elsewhere.
\<close>

definition ring :: "real \<Rightarrow> real \<Rightarrow> bool \<Rightarrow> error + int list list" where
  "ring r_inner r_outer invert =
     (if \<not> r_outer \<ge> r_inner then Inl AssertionError
      else
        let x = arange (- py_int r_outer) (py_int r_outer + 1);
            r = map (\<lambda>xi. map (\<lambda>xj. sqrt (real_of_int (xj\<^sup>2 + xi\<^sup>2))) x) x;
            annulus = map (map (\<lambda>d. d > r_inner \<and> d \<le> r_outer)) r;
            annulus = (if invert then map (map Not) annulus else annulus)
        in Inr (map (map (\<lambda>b. if b then 1 else 0)) annulus))"

text \<open>
  The value that lines 31 to 37 give the cell whose row coordinate is \<open>xi\<close> and whose
  column coordinate is \<open>xj\<close> (both taken from the axis \<open>x\<close>); lemma \<open>ring_eq\<close> below
  shows that the array built by \<open>ring\<close> holds exactly these values.
\<close>

definition cell :: "real \<Rightarrow> real \<Rightarrow> bool \<Rightarrow> int \<Rightarrow> int \<Rightarrow> int" where
  "cell r_inner r_outer invert xi xj =
     (let d = sqrt (real_of_int (xj\<^sup>2 + xi\<^sup>2))
      in if (d > r_inner \<and> d \<le> r_outer) \<noteq> invert then 1 else 0)"

subsection \<open>The library primitive \<^verbatim>\<open>scipy.ndimage.median_filter\<close>\<close>

text \<open>
  An \<^verbatim>\<open>ndarray\<close> of any number of dimensions: its shape and its elements in row-major
  order. A two-dimensional image of \<open>h\<close> rows and \<open>w\<close> columns has shape \<open>[h, w]\<close> and
  its pixel \<open>(i, j)\<close> is element \<open>i * w + j\<close>.
\<close>

record ndarray =
  shape :: "nat list"
  flat :: "real list"

text \<open>
  \<^verbatim>\<open>rmedian\<close> calls \<^verbatim>\<open>median_filter(data, footprint=fp)\<close>, a function of SciPy and not
  of this repository. It is modelled here as SciPy documents and implements it for this
  call, every other argument at its default (\<^verbatim>\<open>mode='reflect'\<close>, \<^verbatim>\<open>origin=0\<close>):
  \<^item> the footprint is read as a boolean mask; its dimensions of length 0 are dropped and
    the number of remaining dimensions must be the input's \<^verbatim>\<open>ndim\<close>, else
    \<^verbatim>\<open>RuntimeError('filter footprint array has incorrect shape.')\<close>;
  \<^item> \<^verbatim>\<open>filter_size\<close> is the number of true cells and the rank is
    \<^verbatim>\<open>filter_size // 2\<close>; a rank outside \<open>0 ..< filter_size\<close> (an all-zero footprint)
    is \<^verbatim>\<open>RuntimeError('rank not within filter footprint size')\<close>;
  \<^item> the output has the input's shape; its pixel \<open>(i, j)\<close> is the element of that rank
    (counted from 0, in ascending order) among the values under the true cells of the
    footprint, the footprint's centre cell \<open>(rows // 2, cols // 2)\<close> laid on \<open>(i, j)\<close>;
  \<^item> a position outside the image reads the image extended by reflection about the edge
    of the last pixel (\<^verbatim>\<open>d c b a | a b c d | d c b a\<close>).

  In \<open>median_filter\<close> below the last branch of the \<open>case\<close> is never reached: a footprint
  with a true cell has two dimensions of positive length, so that the input has passed
  the test on \<^verbatim>\<open>ndim\<close> with two dimensions. On an image with \<open>h * w\<close> elements every
  read of \<open>window\<close> is in range (lemmas \<open>reflect_less\<close> and \<open>flat_index_less\<close>).
\<close>

definition reflect :: "nat \<Rightarrow> int \<Rightarrow> nat" where
  "reflect n i =
     (let m = i mod (2 * int n) in nat (if m < int n then m else 2 * int n - 1 - m))"

definition footprint_shape :: "int list list \<Rightarrow> nat list" where
  "footprint_shape fp = [length fp, (case fp of [] \<Rightarrow> 0 | row # _ \<Rightarrow> length row)]"

text \<open>The offsets, from the centre cell, of the nonzero cells of a footprint, row by row.\<close>

definition offsets :: "int list list \<Rightarrow> (int \<times> int) list" where
  "offsets fp =
     concat (map (\<lambda>(a, row).
        map (\<lambda>(b, c). (int a - int (length fp div 2), int b - int (length row div 2)))
          (filter (\<lambda>(b, c). c \<noteq> 0) (enumerate 0 row))) (enumerate 0 fp))"

text \<open>The values the footprint selects around pixel \<open>(i, j)\<close> of an \<open>h \<times> w\<close> image.\<close>

definition window :: "nat \<Rightarrow> nat \<Rightarrow> real list \<Rightarrow> (int \<times> int) list \<Rightarrow> nat \<Rightarrow> nat \<Rightarrow> real list" where
  "window h w px offs i j =
     map (\<lambda>(di, dj). px ! (reflect h (int i + di) * w + reflect w (int j + dj))) offs"

definition median_filter :: "ndarray \<Rightarrow> int list list \<Rightarrow> error + ndarray" where
  "median_filter input footprint =
     (let fshape = filter (\<lambda>ii. ii > 0) (footprint_shape footprint);
          filter_size = length (offsets footprint);
          rank = filter_size div 2
      in if length fshape \<noteq> length (shape input) then Inl RuntimeError
         else if rank \<ge> filter_size then Inl RuntimeError
         else (case shape input of
                 [h, w] \<Rightarrow>
                   Inr \<lparr>shape = [h, w],
                        flat = map (\<lambda>k. sort (window h w (flat input) (offsets footprint)
                                                 (k div w) (k mod w)) ! rank)
                                 [0..<h * w]\<rparr>
               | _ \<Rightarrow> Inl RuntimeError))"

subsection \<open>The filter: \<^verbatim>\<open>rmedian\<close>\<close>

text \<open>
  \<^verbatim>\<open>rmedian(data, r_inner, r_outer, **kwargs)\<close>: the keyword arguments go to
  \<^verbatim>\<open>_ring\<close>; an exception of \<^verbatim>\<open>_ring\<close> (line 58) leaves before \<^verbatim>\<open>median_filter\<close>
  (line 59) is called.
\<close>

definition rmedian :: "ndarray \<Rightarrow> real \<Rightarrow> real \<Rightarrow> bool \<Rightarrow> error + ndarray" where
  "rmedian data r_inner r_outer invert =
     (case ring r_inner r_outer invert of
        Inl e \<Rightarrow> Inl e
      | Inr fp \<Rightarrow> median_filter data fp)"

subsection \<open>Notions of the specification\<close>





section \<open>Auxiliary facts\<close>

subsection \<open>Comparing a square root with a radius\<close>

lemma sqrt_le_iff: "0 \<le> x \<Longrightarrow> (sqrt x \<le> r) = (0 \<le> r \<and> x \<le> r\<^sup>2)"
proof (cases "0 \<le> r")
  case True
  assume "0 \<le> x"
  have "(sqrt x \<le> r) = (sqrt x \<le> sqrt (r\<^sup>2))" using True by simp
  also have "\<dots> = (x \<le> r\<^sup>2)" by (rule real_sqrt_le_iff)
  finally show ?thesis using True by simp
next
  case False
  assume "0 \<le> x"
  then have "0 \<le> sqrt x" by simp
  then have "\<not> sqrt x \<le> r" using False by linarith
  then show ?thesis using False by simp
qed

lemma sqrt_gt_iff: "0 \<le> x \<Longrightarrow> (sqrt x > r) = (r < 0 \<or> x > r\<^sup>2)"
  using sqrt_le_iff [of x r] by auto

text \<open>The cell value without square roots, for evaluation on concrete radii.\<close>

lemma cell_code:
  "cell ri ro b xi xj =
     (let n = real_of_int (xj\<^sup>2 + xi\<^sup>2)
      in if ((ri < 0 \<or> n > ri\<^sup>2) \<and> 0 \<le> ro \<and> n \<le> ro\<^sup>2) \<noteq> b then 1 else 0)"
  by (simp add: cell_def Let_def sqrt_le_iff sqrt_gt_iff)

lemma cell_neg: "cell ri ro b (- xi) (- xj) = cell ri ro b xi xj"
  by (simp add: cell_def)

lemma cell_swap: "cell ri ro b xi xj = cell ri ro b xj xi"
  by (simp add: cell_def add.commute)


subsection \<open>The footprint as a grid over the axis\<close>

lemma ring_eq:
  assumes "r_inner \<le> r_outer"
  shows "ring r_inner r_outer invert =
         Inr (map (\<lambda>xi. map (\<lambda>xj. cell r_inner r_outer invert xi xj)
                    [- py_int r_outer..py_int r_outer]) [- py_int r_outer..py_int r_outer])"
  using assms by (cases invert) (simp_all add: ring_def arange_def cell_def Let_def comp_def)

lemma ring_Inl: "r_outer < r_inner \<Longrightarrow> ring r_inner r_outer invert = Inl AssertionError"
  by (simp add: ring_def)

lemma ring_InrD: "ring r_inner r_outer invert = Inr fp \<Longrightarrow> r_inner \<le> r_outer"
  by (simp add: ring_def split: if_splits)


lemma py_int_of_int: "py_int (real_of_int k) = k"
  by (simp add: py_int_def)

lemma rev_upto: "rev [- R..R] = map uminus [- R..R]"
  by (rule nth_equalityI) (simp_all add: rev_nth)

lemma grid_rot:
  "map rev (rev (map (\<lambda>xi. map (g xi) [- R..R]) [- R..R]))
     = map (\<lambda>xi. map (\<lambda>xj. g (- xi) (- xj)) [- R..R]) [- R..R]"
  by (simp add: rev_map rev_upto comp_def)

lemma grid_transpose:
  "transpose (map (\<lambda>xi. map (g xi) [- R..R]) [- R..R])
     = map (\<lambda>xj. map (\<lambda>xi. g xi xj) [- R..R]) [- R..R]"
proof -
  let ?X = "[- R..R]"
  let ?G = "map (\<lambda>xi. map (g xi) ?X) ?X"
  have "transpose ?G = map (\<lambda>i. map (\<lambda>j. ?G ! j ! i) [0..<length ?G]) [0..<length ?X]"
    by (rule transpose_rectangle) simp_all
  also have "\<dots> = map (\<lambda>xj. map (\<lambda>xi. g xi xj) ?X) ?X"
    by (rule nth_equalityI) (auto intro!: nth_equalityI)
  finally show ?thesis .
qed


lemma grid_all:
  assumes "\<And>xi xj. g xi xj = v"
  shows "\<forall>row \<in> set (map (\<lambda>xi. map (g xi) [- R..R]) [- R..R]).
           length row = length (map (\<lambda>xi. map (g xi) [- R..R]) [- R..R]) \<and> (\<forall>c \<in> set row. c = v)"
  using assms by auto

lemma grid_transpose_sym:
  assumes "\<And>a b. g a b = g b a"
  shows "transpose (map (\<lambda>xi. map (g xi) [- R..R]) [- R..R])
           = map (\<lambda>xi. map (g xi) [- R..R]) [- R..R]"
proof -
  have "\<And>xj. (\<lambda>xi. g xi xj) = g xj" using assms by auto
  then show ?thesis unfolding grid_transpose by (simp only:)
qed

lemma ring_1_2: "ring 1 2 False =
   Inr [[0,0,1,0,0],[0,1,0,1,0],[1,0,0,0,1],[0,1,0,1,0],[0,0,1,0,0]]"
  by (simp add: ring_eq py_int_def upto.simps cell_code)

subsection \<open>Reflection and the window of a pixel\<close>







subsection \<open>The cases of \<^verbatim>\<open>median_filter\<close>\<close>









subsection \<open>The rank of an element of a sorted sample\<close>





subsection \<open>The offsets that a ring footprint selects\<close>















subsection \<open>The image extended by reflection\<close>





subsection \<open>Evaluation on concrete inputs\<close>






section \<open>The claims\<close>

subsection \<open>C1: what each output pixel is\<close>




subsection \<open>C2: the membership test of the annulus\<close>



subsection \<open>C3: the size of the footprint\<close>



subsection \<open>C4: the radius assertion\<close>

text \<open>
  C4. \<^verbatim>\<open>_ring\<close> fails if and only if \<open>r_outer < r_inner\<close>, with the assertion error of
  line 29, the first statement of the function; \<^verbatim>\<open>rmedian\<close> then fails with the same
  error whatever the data is, the filter never being called.
\<close>

theorem invalid_radius_iff:
  "((\<exists>e. ring r_inner r_outer invert = Inl e) \<longleftrightarrow> r_outer < r_inner) \<and>
   (r_outer < r_inner \<longrightarrow>
      ring r_inner r_outer invert = Inl AssertionError \<and>
      rmedian data r_inner r_outer invert = Inl AssertionError)"
proof (cases "r_outer < r_inner")
  case True
  then show ?thesis by (simp add: rmedian_def ring_Inl)
next
  case False
  then show ?thesis by (simp add: ring_eq)
qed

theorem invalid_radius_iff_witness:
  "(2::real) < 5 \<and> ring 5 2 False = Inl AssertionError \<and>
   rmedian \<lparr>shape = [2, 2], flat = [1, 2, 3, 4]\<rparr> 5 2 False = Inl AssertionError"
  using invalid_radius_iff [of 5 2 False "\<lparr>shape = [2, 2], flat = [1, 2, 3, 4]\<rparr>"] by simp

subsection \<open>C5: an input that is not two-dimensional\<close>




subsection \<open>C6: the symmetries of the footprint\<close>

text \<open>
  C6. Every footprint that \<^verbatim>\<open>_ring\<close> returns, inverted or not, is unchanged by a rotation
  of 180 degrees (both axes reversed) and by transposition.
\<close>

theorem ring_symmetric:
  assumes "ring r_inner r_outer invert = Inr fp"
  shows "map rev (rev fp) = fp \<and> transpose fp = fp"
proof -
  let ?R = "py_int r_outer"
  have fp: "fp = map (\<lambda>xi. map (cell r_inner r_outer invert xi) [- ?R..?R]) [- ?R..?R]"
    using assms ring_eq [OF ring_InrD [OF assms], of invert] by simp
  have "map rev (rev fp) = fp"
    unfolding fp grid_rot by (simp add: cell_neg)
  moreover have "transpose fp = fp"
    unfolding fp by (rule grid_transpose_sym) (rule cell_swap)
  ultimately show ?thesis ..
qed

theorem ring_symmetric_witness:
  "ring 1 2 False = Inr [[0,0,1,0,0],[0,1,0,1,0],[1,0,0,0,1],[0,1,0,1,0],[0,0,1,0,0]] \<and>
   map rev (rev [[0,0,1,0,0],[0,1,0,1,0],[1,0,0,0,1],[0,1,0,1,0],[0,0,1,0,0::int]])
     = [[0,0,1,0,0],[0,1,0,1,0],[1,0,0,0,1],[0,1,0,1,0],[0,0,1,0,0]] \<and>
   transpose [[0,0,1,0,0],[0,1,0,1,0],[1,0,0,0,1],[0,1,0,1,0],[0,0,1,0,0::int]]
     = [[0,0,1,0,0],[0,1,0,1,0],[1,0,0,0,1],[0,1,0,1,0],[0,0,1,0,0]]"
  using ring_symmetric [OF ring_1_2] ring_1_2 by simp

subsection \<open>C7: rings with and without cells\<close>

text \<open>
  C7. For integer radii \<open>0 \<le> r_inner < r_outer\<close> the footprint, not inverted, has a
  1-cell. For equal integer radii \<^verbatim>\<open>_ring\<close> raises nothing: the footprint is all 0
  when not inverted and all 1 when inverted.
\<close>

theorem ring_cells:
  fixes ri ro k :: int
  shows "(0 \<le> ri \<and> ri < ro \<longrightarrow>
            (\<exists>fp. ring (real_of_int ri) (real_of_int ro) False = Inr fp \<and>
                  (\<exists>row \<in> set fp. 1 \<in> set row))) \<and>
         (\<exists>fp. ring (real_of_int k) (real_of_int k) False = Inr fp \<and>
               (0 \<le> k \<longrightarrow> length fp = nat (2 * k + 1)) \<and>
               (\<forall>row \<in> set fp. length row = length fp \<and> (\<forall>c \<in> set row. c = 0))) \<and>
         (\<exists>fp. ring (real_of_int k) (real_of_int k) True = Inr fp \<and>
               (0 \<le> k \<longrightarrow> length fp = nat (2 * k + 1)) \<and>
               (\<forall>row \<in> set fp. length row = length fp \<and> (\<forall>c \<in> set row. c = 1)))"
proof (intro conjI impI)
  assume a: "0 \<le> ri \<and> ri < ro"
  let ?c = "cell (real_of_int ri) (real_of_int ro) False"
  let ?X = "[- ro..ro]"
  let ?fp = "map (\<lambda>xi. map (?c xi) ?X) ?X"
  have fp: "ring (real_of_int ri) (real_of_int ro) False = Inr ?fp"
    using ring_eq [of "real_of_int ri" "real_of_int ro" False] a by (simp add: py_int_of_int)
  have c1: "?c 0 ro = 1"
    using a by (simp add: cell_def)
  have "map (?c 0) ?X \<in> (\<lambda>xi. map (?c xi) ?X) ` set ?X"
    by (rule imageI) (use a in simp)
  then have r: "map (?c 0) ?X \<in> set ?fp" by simp
  have "?c 0 ro \<in> ?c 0 ` set ?X"
    by (rule imageI) (use a in simp)
  then have "1 \<in> set (map (?c 0) ?X)" using c1 by simp
  then have "\<exists>row \<in> set ?fp. 1 \<in> set row" using r by (rule bexI)
  with fp show "\<exists>fp. ring (real_of_int ri) (real_of_int ro) False = Inr fp \<and>
                  (\<exists>row \<in> set fp. 1 \<in> set row)" by (intro exI [of _ ?fp] conjI)
next
  let ?c = "cell (real_of_int k) (real_of_int k) False"
  let ?fp = "map (\<lambda>xi. map (?c xi) [- k..k]) [- k..k]"
  have fp: "ring (real_of_int k) (real_of_int k) False = Inr ?fp"
    using ring_eq [of "real_of_int k" "real_of_int k" False] by (simp add: py_int_of_int)
  have len: "0 \<le> k \<longrightarrow> length ?fp = nat (2 * k + 1)" by simp
  have "\<And>xi xj. ?c xi xj = 0" by (simp add: cell_def Let_def)
  then have all: "\<forall>row \<in> set ?fp. length row = length ?fp \<and> (\<forall>c \<in> set row. c = 0)"
    by (rule grid_all)
  show "\<exists>fp. ring (real_of_int k) (real_of_int k) False = Inr fp \<and>
               (0 \<le> k \<longrightarrow> length fp = nat (2 * k + 1)) \<and>
               (\<forall>row \<in> set fp. length row = length fp \<and> (\<forall>c \<in> set row. c = 0))"
    by (intro exI [of _ ?fp] conjI) (rule fp len all)+
next
  let ?c = "cell (real_of_int k) (real_of_int k) True"
  let ?fp = "map (\<lambda>xi. map (?c xi) [- k..k]) [- k..k]"
  have fp: "ring (real_of_int k) (real_of_int k) True = Inr ?fp"
    using ring_eq [of "real_of_int k" "real_of_int k" True] by (simp add: py_int_of_int)
  have len: "0 \<le> k \<longrightarrow> length ?fp = nat (2 * k + 1)" by simp
  have "\<And>xi xj. ?c xi xj = 1" by (simp add: cell_def Let_def)
  then have all: "\<forall>row \<in> set ?fp. length row = length ?fp \<and> (\<forall>c \<in> set row. c = 1)"
    by (rule grid_all)
  show "\<exists>fp. ring (real_of_int k) (real_of_int k) True = Inr fp \<and>
               (0 \<le> k \<longrightarrow> length fp = nat (2 * k + 1)) \<and>
               (\<forall>row \<in> set fp. length row = length fp \<and> (\<forall>c \<in> set row. c = 1))"
    by (intro exI [of _ ?fp] conjI) (rule fp len all)+
qed

theorem ring_cells_witness:
  "(0::int) \<le> 1 \<and> (1::int) < 2 \<and>
   (\<exists>fp. ring 1 2 False = Inr fp \<and> (\<exists>row \<in> set fp. 1 \<in> set row)) \<and>
   (\<exists>fp. ring 1 1 False = Inr fp \<and> length fp = 3 \<and>
         (\<forall>row \<in> set fp. length row = length fp \<and> (\<forall>c \<in> set row. c = 0))) \<and>
   (\<exists>fp. ring 1 1 True = Inr fp \<and> length fp = 3 \<and>
         (\<forall>row \<in> set fp. length row = length fp \<and> (\<forall>c \<in> set row. c = 1)))"
  using ring_cells [of 1 2 1] by simp

subsection \<open>C8: a constant image\<close>




subsection \<open>C9: negative radii\<close>




subsection \<open>C10: the boundary policy\<close>



end
